theory Spec2Isabelle
  imports Main "HOL-Library.Sublist" "HOL-Library.AList"
begin

section \<open>Values, exceptions and the state of a session\<close>

text \<open>
  The gateway (logic.py) passes Python values decoded from JSON between the presentation
  layer and the Meraki SDK. \<open>JNull\<close> is Python's \<open>None\<close>, a \<open>JObj\<close> is a
  \<open>dict\<close> with string keys, kept as an association list in insertion order (a Python
  dict holds each key once; \<open>map_of\<close> reads it). Numbers are integers: no field read
  by the code is a float.
\<close>

datatype json =
    JNull
  | JBool bool
  | JNum int
  | JStr string
  | JList "json list"
  | JObj "(string \<times> json) list"

text \<open>
  The exceptions of a run. \<open>APIError m\<close> is \<open>meraki.APIError\<close>, the transport
  failure of the SDK; the class is defined by the SDK, not by this repository, so the
  model carries the one thing the code reads from it: \<open>m\<close> is \<open>str(e)\<close>.
  \<open>OtherException\<close> is any exception of another class.
\<close>

datatype exn =
    APIError string
  | AttributeError
  | KeyError json
  | TypeError
  | OtherException string

type_synonym 'a result = "exn + 'a"

text \<open>One constructor per SDK method called by logic.py, with the arguments passed to it.\<close>

datatype request =
    getOrganizations
  | getOrganizationNetworks json
  | getOrganizationApplianceDnsLocalProfiles json
  | createOrganizationApplianceDnsLocalProfile json json
  | getOrganizationApplianceDnsLocalRecords json
  | createOrganizationApplianceDnsLocalRecord json json json json
  | getOrganizationApplianceDnsLocalProfilesAssignments json
  | bulkOrganizationApplianceDnsLocalProfilesAssignmentsCreate json json
  | deleteOrganizationApplianceDnsLocalProfile json json
  | deleteOrganizationApplianceDnsLocalRecord json json
  | createOrganizationApplianceDnsLocalProfilesAssignmentsBulkDelete json json

text \<open>
  \<open>self.dashboard\<close>: the remote platform behind the SDK, a state machine of any state
  type \<open>'r\<close>. A call returns a value or raises, and may change the remote state.
\<close>

type_synonym 'r dashboard = "request \<Rightarrow> 'r \<Rightarrow> json result \<times> 'r"

datatype log_event =
    LogInfo nat string
  | LogError string string

text \<open>
  The state threaded through the calls: the global \<open>API_CALL_COUNTER\<close>, the logger's
  output, the remote state, the requests that reached the SDK (in order), the clock in
  seconds, and the store of \<open>st.cache_data\<close>, keyed by the decorated function and the
  arguments it hashes.
\<close>

record 'r world =
  API_CALL_COUNTER :: nat
  log :: "log_event list"
  remote :: 'r
  sent :: "request list"
  clock :: nat
  cache :: "string \<times> json list \<Rightarrow> (nat \<times> json) option"

section \<open>logic.py\<close>

definition increment_counter :: "string \<Rightarrow> 'r world \<Rightarrow> 'r world" where
  "increment_counter endpoint w =
     (let n = API_CALL_COUNTER w + 1
      in w\<lparr>API_CALL_COUNTER := n, log := log w @ [LogInfo n endpoint]\<rparr>)"

definition logger_error :: "string \<Rightarrow> string \<Rightarrow> 'r world \<Rightarrow> 'r world" where
  "logger_error method e w = w\<lparr>log := log w @ [LogError method e]\<rparr>"

text \<open>A call of an SDK method: the request reaches the remote, which answers.\<close>

definition sdk_call :: "'r dashboard \<Rightarrow> request \<Rightarrow> 'r world \<Rightarrow> json result \<times> 'r world" where
  "sdk_call d req w =
     (case d req (remote w) of
        (res, r') \<Rightarrow> (res, w\<lparr>remote := r', sent := sent w @ [req]\<rparr>))"

datatype ttl_class = short | medium | long

fun CACHE_CONFIG :: "ttl_class \<Rightarrow> nat" where
  "CACHE_CONFIG short = 300"
| "CACHE_CONFIG medium = 3600"
| "CACHE_CONFIG long = 86400"

text \<open>\<open>obj.get(k, dflt)\<close>: only a dict has the method.\<close>

definition dict_get :: "json \<Rightarrow> string \<Rightarrow> json \<Rightarrow> json result" where
  "dict_get obj k dflt =
     (case obj of
        JObj kvs \<Rightarrow> Inr (case map_of kvs k of Some v \<Rightarrow> v | None \<Rightarrow> dflt)
      | _ \<Rightarrow> Inl AttributeError)"

text \<open>\<open>{"error": str(e)}\<close>\<close>

definition error_value :: "string \<Rightarrow> json" where
  "error_value e = JObj [(''error'', JStr e)]"

definition list_profiles :: "'r dashboard \<Rightarrow> json \<Rightarrow> 'r world \<Rightarrow> json result \<times> 'r world" where
  "list_profiles d org_id w =
     (case sdk_call d (getOrganizationApplianceDnsLocalProfiles org_id)
             (increment_counter ''appliance.getOrganizationApplianceDnsLocalProfiles'' w) of
        (Inr response, w') \<Rightarrow> (dict_get response ''items'' (JList []), w')
      | (Inl (APIError e), w') \<Rightarrow> (Inr (JList []), logger_error ''list_profiles'' e w')
      | (Inl ex, w') \<Rightarrow> (Inl ex, w'))"

definition create_profile :: "'r dashboard \<Rightarrow> json \<Rightarrow> json \<Rightarrow> 'r world \<Rightarrow> json result \<times> 'r world" where
  "create_profile d org_id name w =
     (case sdk_call d (createOrganizationApplianceDnsLocalProfile org_id name)
             (increment_counter ''appliance.createOrganizationApplianceDnsLocalProfile'' w) of
        (Inr created, w') \<Rightarrow> (Inr created, w')
      | (Inl (APIError e), w') \<Rightarrow> (Inr (error_value e), logger_error ''create_profile'' e w')
      | (Inl ex, w') \<Rightarrow> (Inl ex, w'))"

definition list_dns_records :: "'r dashboard \<Rightarrow> json \<Rightarrow> 'r world \<Rightarrow> json result \<times> 'r world" where
  "list_dns_records d org_id w =
     (case sdk_call d (getOrganizationApplianceDnsLocalRecords org_id)
             (increment_counter ''appliance.getOrganizationApplianceDnsLocalRecords'' w) of
        (Inr response, w') \<Rightarrow> (dict_get response ''items'' (JList []), w')
      | (Inl (APIError e), w') \<Rightarrow> (Inr (JList []), logger_error ''list_dns_records'' e w')
      | (Inl ex, w') \<Rightarrow> (Inl ex, w'))"

definition create_dns_record ::
  "'r dashboard \<Rightarrow> json \<Rightarrow> json \<Rightarrow> json \<Rightarrow> json \<Rightarrow> 'r world \<Rightarrow> json result \<times> 'r world" where
  "create_dns_record d org_id profile_id hostname address w =
     (let profile = JObj [(''id'', profile_id)]
      in case sdk_call d (createOrganizationApplianceDnsLocalRecord org_id hostname address profile)
                (increment_counter ''appliance.createOrganizationApplianceDnsLocalRecord'' w) of
           (Inr created, w') \<Rightarrow> (Inr created, w')
         | (Inl (APIError e), w') \<Rightarrow> (Inr (error_value e), logger_error ''create_dns_record'' e w')
         | (Inl ex, w') \<Rightarrow> (Inl ex, w'))"

definition list_assignments :: "'r dashboard \<Rightarrow> json \<Rightarrow> 'r world \<Rightarrow> json result \<times> 'r world" where
  "list_assignments d org_id w =
     (case sdk_call d (getOrganizationApplianceDnsLocalProfilesAssignments org_id)
             (increment_counter ''appliance.getOrganizationApplianceDnsLocalProfilesAssignments'' w) of
        (Inr response, w') \<Rightarrow> (dict_get response ''items'' (JList []), w')
      | (Inl (APIError e), w') \<Rightarrow> (Inr (JList []), logger_error ''list_assignments'' e w')
      | (Inl ex, w') \<Rightarrow> (Inl ex, w'))"

definition assign_profile ::
  "'r dashboard \<Rightarrow> json \<Rightarrow> json \<Rightarrow> json \<Rightarrow> 'r world \<Rightarrow> json result \<times> 'r world" where
  "assign_profile d org_id network_id profile_id w =
     (let items = JList [JObj [(''network'', JObj [(''id'', network_id)]),
                               (''profile'', JObj [(''id'', profile_id)])]]
      in case sdk_call d (bulkOrganizationApplianceDnsLocalProfilesAssignmentsCreate org_id items)
                (increment_counter
                   ''appliance.bulkOrganizationApplianceDnsLocalProfilesAssignmentsCreate'' w) of
           (Inr created, w') \<Rightarrow> (Inr created, w')
         | (Inl (APIError e), w') \<Rightarrow> (Inr (error_value e), logger_error ''assign_profile'' e w')
         | (Inl ex, w') \<Rightarrow> (Inl ex, w'))"

text \<open>\<open>res if res is not None else {}\<close>\<close>

definition not_none_or_empty :: "json \<Rightarrow> json" where
  "not_none_or_empty res = (if res \<noteq> JNull then res else JObj [])"

definition delete_profile :: "'r dashboard \<Rightarrow> json \<Rightarrow> json \<Rightarrow> 'r world \<Rightarrow> json result \<times> 'r world" where
  "delete_profile d org_id profile_id w =
     (case sdk_call d (deleteOrganizationApplianceDnsLocalProfile org_id profile_id)
             (increment_counter ''appliance.deleteOrganizationApplianceDnsLocalProfile'' w) of
        (Inr res, w') \<Rightarrow> (Inr (not_none_or_empty res), w')
      | (Inl (APIError e), w') \<Rightarrow> (Inr (error_value e), logger_error ''delete_profile'' e w')
      | (Inl ex, w') \<Rightarrow> (Inl ex, w'))"

definition delete_dns_record :: "'r dashboard \<Rightarrow> json \<Rightarrow> json \<Rightarrow> 'r world \<Rightarrow> json result \<times> 'r world" where
  "delete_dns_record d org_id record_id w =
     (case sdk_call d (deleteOrganizationApplianceDnsLocalRecord org_id record_id)
             (increment_counter ''appliance.deleteOrganizationApplianceDnsLocalRecord'' w) of
        (Inr res, w') \<Rightarrow> (Inr (not_none_or_empty res), w')
      | (Inl (APIError e), w') \<Rightarrow> (Inr (error_value e), logger_error ''delete_dns_record'' e w')
      | (Inl ex, w') \<Rightarrow> (Inl ex, w'))"

definition remove_assignment :: "'r dashboard \<Rightarrow> json \<Rightarrow> json \<Rightarrow> 'r world \<Rightarrow> json result \<times> 'r world" where
  "remove_assignment d org_id assignment_id w =
     (let items = JList [JObj [(''assignmentId'', assignment_id)]]
      in case sdk_call d (createOrganizationApplianceDnsLocalProfilesAssignmentsBulkDelete org_id items)
                (increment_counter
                   ''appliance.createOrganizationApplianceDnsLocalProfilesAssignmentsBulkDelete'' w) of
           (Inr res, w') \<Rightarrow> (Inr (not_none_or_empty res), w')
         | (Inl (APIError e), w') \<Rightarrow> (Inr (error_value e), logger_error ''remove_assignment'' e w')
         | (Inl ex, w') \<Rightarrow> (Inl ex, w'))"

subsection \<open>The cached reads\<close>

text \<open>
  Modelled from the spec: the decorator \<open>st.cache_data(ttl=...)\<close> belongs to Streamlit and
  is not in this repository. Section 4.2 of the spec: a time-bounded memoisation; the key of
  \<open>get_networks\<close> includes \<open>org_id\<close>, the key of \<open>get_organizations\<close> has no
  parameter (the argument \<open>_self\<close> is not part of a key); on expiry the next call performs
  a live fetch and replaces the cached value; nothing else invalidates an entry. An entry
  stored at time \<open>t0\<close> is served while \<open>clock < t0 + ttl\<close>. A body that raises stores
  nothing and the exception reaches the caller.
\<close>

definition cache_fetch ::
  "string \<Rightarrow> json list \<Rightarrow> ('r world \<Rightarrow> json result \<times> 'r world) \<Rightarrow> 'r world \<Rightarrow> json result \<times> 'r world" where
  "cache_fetch func args body w =
     (case body w of
        (Inr v, w') \<Rightarrow> (Inr v, w'\<lparr>cache := (cache w')((func, args) \<mapsto> (clock w', v))\<rparr>)
      | (Inl ex, w') \<Rightarrow> (Inl ex, w'))"

definition cache_data ::
  "nat \<Rightarrow> string \<Rightarrow> json list \<Rightarrow> ('r world \<Rightarrow> json result \<times> 'r world) \<Rightarrow> 'r world
     \<Rightarrow> json result \<times> 'r world" where
  "cache_data ttl func args body w =
     (case cache w (func, args) of
        Some (t0, v) \<Rightarrow>
          if clock w < t0 + ttl then (Inr v, w) else cache_fetch func args body w
      | None \<Rightarrow> cache_fetch func args body w)"

text \<open>Time passes between two calls; no call of the model moves the clock.\<close>

definition elapse :: "nat \<Rightarrow> 'r world \<Rightarrow> 'r world" where
  "elapse dt w = w\<lparr>clock := clock w + dt\<rparr>"

text \<open>The bodies of the two decorated methods have no \<open>try\<close>.\<close>

definition get_organizations :: "'r dashboard \<Rightarrow> 'r world \<Rightarrow> json result \<times> 'r world" where
  "get_organizations d =
     cache_data (CACHE_CONFIG long) ''get_organizations'' []
       (\<lambda>w. sdk_call d getOrganizations
               (increment_counter ''organizations.getOrganizations'' w))"

definition get_networks :: "'r dashboard \<Rightarrow> json \<Rightarrow> 'r world \<Rightarrow> json result \<times> 'r world" where
  "get_networks d organization_id =
     cache_data (CACHE_CONFIG medium) ''get_networks'' [organization_id]
       (\<lambda>w. sdk_call d (getOrganizationNetworks organization_id)
               (increment_counter ''organizations.getOrganizationNetworks'' w))"


section \<open>web.py\<close>

subsection \<open>Python operations used by the page\<close>

text \<open>\<open>obj[k]\<close> with a string key: KeyError on a dict without it, TypeError on any other value.\<close>

definition subscript :: "json \<Rightarrow> string \<Rightarrow> json result" where
  "subscript obj k =
     (case obj of
        JObj kvs \<Rightarrow> (case map_of kvs k of Some v \<Rightarrow> Inr v | None \<Rightarrow> Inl (KeyError (JStr k)))
      | _ \<Rightarrow> Inl TypeError)"

text \<open>\<open>for p in xs\<close>: a list gives its elements, a dict its keys, a string its characters.\<close>

fun py_iter :: "json \<Rightarrow> json list result" where
  "py_iter (JList xs) = Inr xs"
| "py_iter (JObj kvs) = Inr (map (\<lambda>kv. JStr (fst kv)) kvs)"
| "py_iter (JStr s) = Inr (map (\<lambda>c. JStr [c]) s)"
| "py_iter _ = Inl TypeError"

fun hashable :: "json \<Rightarrow> bool" where
  "hashable (JList xs) = False"
| "hashable (JObj kvs) = False"
| "hashable _ = True"

text \<open>As dict keys \<open>True\<close> and \<open>1\<close> (\<open>False\<close> and \<open>0\<close>) are the same key.\<close>

fun dict_key :: "json \<Rightarrow> json" where
  "dict_key (JBool b) = JNum (if b then 1 else 0)"
| "dict_key k = k"

text \<open>\<open>bool(res)\<close>\<close>

fun truthy :: "json \<Rightarrow> bool" where
  "truthy JNull = False"
| "truthy (JBool b) = b"
| "truthy (JNum n) = (n \<noteq> 0)"
| "truthy (JStr s) = (s \<noteq> [])"
| "truthy (JList xs) = (xs \<noteq> [])"
| "truthy (JObj kvs) = (kvs \<noteq> [])"

text \<open>\<open>"error" in res\<close>: a key of a dict, an element of a list, a substring of a string.\<close>

fun error_in :: "json \<Rightarrow> bool result" where
  "error_in (JObj kvs) = Inr (''error'' \<in> fst ` set kvs)"
| "error_in (JList xs) = Inr (JStr ''error'' \<in> set xs)"
| "error_in (JStr s) = Inr (sublist ''error'' s)"
| "error_in _ = Inl TypeError"

subsection \<open>Relational lookups\<close>

text \<open>
  \<open>{p[kf]: p['name'] for p in xs}\<close>: key, then value, then the store, which needs a
  hashable key; a later item with the same key replaces the value.
\<close>

fun build_lookup :: "string \<Rightarrow> json list \<Rightarrow> (json \<times> json) list \<Rightarrow> (json \<times> json) list result" where
  "build_lookup kf [] acc = Inr acc"
| "build_lookup kf (p # ps) acc =
     (case subscript p kf of
        Inl e \<Rightarrow> Inl e
      | Inr k \<Rightarrow>
          (case subscript p ''name'' of
             Inl e \<Rightarrow> Inl e
           | Inr v \<Rightarrow>
               if hashable k then build_lookup kf ps (AList.update (dict_key k) v acc)
               else Inl TypeError))"

definition prof_lookup :: "json \<Rightarrow> (json \<times> json) list result" where
  "prof_lookup profiles =
     (case py_iter profiles of Inl e \<Rightarrow> Inl e | Inr ps \<Rightarrow> build_lookup ''profileId'' ps [])"

definition net_lookup :: "json \<Rightarrow> (json \<times> json) list result" where
  "net_lookup nets =
     (case py_iter nets of Inl e \<Rightarrow> Inl e | Inr ns \<Rightarrow> build_lookup ''id'' ns [])"

text \<open>\<open>lookup.get(k, dflt)\<close> on a built lookup.\<close>

definition lookup_get :: "(json \<times> json) list \<Rightarrow> json \<Rightarrow> json \<Rightarrow> json result" where
  "lookup_get lk k dflt =
     (if hashable k
      then Inr (case map_of lk (dict_key k) of Some v \<Rightarrow> v | None \<Rightarrow> dflt)
      else Inl TypeError)"

text \<open>\<open>x.get(fld, {}).get('id', dflt)\<close>\<close>

definition ref_id :: "string \<Rightarrow> json \<Rightarrow> json \<Rightarrow> json result" where
  "ref_id fld dflt x =
     (case dict_get x fld (JObj []) of
        Inl e \<Rightarrow> Inl e
      | Inr ref \<Rightarrow> dict_get ref ''id'' dflt)"

text \<open>DNS Records mode: \<open>pname\<close> of a record \<open>r\<close>, with the lookup built from \<open>profiles\<close>.\<close>

definition pname :: "json \<Rightarrow> json \<Rightarrow> json result" where
  "pname profiles r =
     (case prof_lookup profiles of
        Inl e \<Rightarrow> Inl e
      | Inr lk \<Rightarrow>
          (case ref_id ''profile'' (JStr ''N/A'') r of
             Inl e \<Rightarrow> Inl e
           | Inr pid \<Rightarrow> lookup_get lk pid (JStr ''Unknown'')))"

text \<open>Network Assignments mode: \<open>(n_name, p_name)\<close> of an assignment \<open>a\<close>.\<close>

definition assignment_names :: "json \<Rightarrow> json \<Rightarrow> json \<Rightarrow> (json \<times> json) result" where
  "assignment_names nets profs a =
     (case net_lookup nets of
        Inl e \<Rightarrow> Inl e
      | Inr nl \<Rightarrow>
     (case prof_lookup profs of
        Inl e \<Rightarrow> Inl e
      | Inr pl \<Rightarrow>
     (case ref_id ''network'' JNull a of
        Inl e \<Rightarrow> Inl e
      | Inr n_id \<Rightarrow>
     (case ref_id ''profile'' JNull a of
        Inl e \<Rightarrow> Inl e
      | Inr p_id \<Rightarrow>
     (case lookup_get nl n_id (JStr ''Unknown'') of
        Inl e \<Rightarrow> Inl e
      | Inr n_name \<Rightarrow>
     (case lookup_get pl p_id (JStr ''Unknown'') of
        Inl e \<Rightarrow> Inl e
      | Inr p_name \<Rightarrow> Inr (n_name, p_name)))))))"

text \<open>What the theorems below ask of a fetched item: a dict whose id is a string and that has a name.\<close>

definition named_item :: "string \<Rightarrow> json \<Rightarrow> bool" where
  "named_item kf p =
     (case subscript p kf of
        Inr (JStr i) \<Rightarrow> (case subscript p ''name'' of Inr v \<Rightarrow> True | Inl e \<Rightarrow> False)
      | _ \<Rightarrow> False)"

subsection \<open>Feedback after a mutation\<close>

datatype toast = SuccessToast | ErrorToast json

text \<open>\<open>not res or "error" not in res\<close>\<close>

definition delete_ok :: "json \<Rightarrow> bool result" where
  "delete_ok res =
     (if \<not> truthy res then Inr True
      else case error_in res of Inl e \<Rightarrow> Inl e | Inr c \<Rightarrow> Inr (\<not> c))"

text \<open>\<open>res and "error" not in res\<close>\<close>

definition create_ok :: "json \<Rightarrow> bool result" where
  "create_ok res =
     (if truthy res
      then case error_in res of Inl e \<Rightarrow> Inl e | Inr c \<Rightarrow> Inr (\<not> c)
      else Inr False)"

text \<open>The branch taken after \<open>delete_profile\<close>, \<open>delete_dns_record\<close>, \<open>remove_assignment\<close>.\<close>

definition delete_feedback :: "json \<Rightarrow> toast result" where
  "delete_feedback res =
     (case delete_ok res of
        Inl e \<Rightarrow> Inl e
      | Inr ok \<Rightarrow>
          if ok then Inr SuccessToast
          else (case subscript res ''error'' of Inl e \<Rightarrow> Inl e | Inr m \<Rightarrow> Inr (ErrorToast m)))"

text \<open>The branch taken after \<open>create_profile\<close>, \<open>create_dns_record\<close>, \<open>assign_profile\<close>.\<close>

definition create_feedback :: "json \<Rightarrow> toast result" where
  "create_feedback res =
     (case create_ok res of
        Inl e \<Rightarrow> Inl e
      | Inr ok \<Rightarrow>
          if ok then Inr SuccessToast
          else (case dict_get res ''error'' (JStr ''Unknown'') of
                  Inl e \<Rightarrow> Inl e
                | Inr m \<Rightarrow> Inr (ErrorToast m)))"

text \<open>A dict that has the field \<open>error\<close>.\<close>

definition has_error :: "json \<Rightarrow> bool" where
  "has_error res = (case res of JObj kvs \<Rightarrow> ''error'' \<in> fst ` set kvs | _ \<Rightarrow> False)"

section \<open>Families of operations, stubs\<close>

text \<open>The three list methods of the gateway and the SDK request each one sends.\<close>

datatype list_operation = ListProfiles | ListDnsRecords | ListAssignments

fun list_request :: "list_operation \<Rightarrow> json \<Rightarrow> request" where
  "list_request ListProfiles org_id = getOrganizationApplianceDnsLocalProfiles org_id"
| "list_request ListDnsRecords org_id = getOrganizationApplianceDnsLocalRecords org_id"
| "list_request ListAssignments org_id = getOrganizationApplianceDnsLocalProfilesAssignments org_id"

fun list_op :: "list_operation \<Rightarrow> 'r dashboard \<Rightarrow> json \<Rightarrow> 'r world \<Rightarrow> json result \<times> 'r world" where
  "list_op ListProfiles = list_profiles"
| "list_op ListDnsRecords = list_dns_records"
| "list_op ListAssignments = list_assignments"

text \<open>A process that has just started: nothing counted, logged, sent or cached.\<close>

definition fresh_world :: "'r \<Rightarrow> 'r world" where
  "fresh_world r =
     \<lparr>API_CALL_COUNTER = 0, log = [], remote = r, sent = [], clock = 0, cache = (\<lambda>k. None)\<rparr>"

text \<open>A stub of the SDK that answers every call the same way.\<close>

definition always :: "json result \<Rightarrow> unit dashboard" where
  "always out req r = (out, r)"

text \<open>The three delete methods of the gateway and the SDK request each one sends.\<close>

datatype delete_operation = DeleteProfile | DeleteDnsRecord | RemoveAssignment

fun delete_request :: "delete_operation \<Rightarrow> json \<Rightarrow> json \<Rightarrow> request" where
  "delete_request DeleteProfile org_id x = deleteOrganizationApplianceDnsLocalProfile org_id x"
| "delete_request DeleteDnsRecord org_id x = deleteOrganizationApplianceDnsLocalRecord org_id x"
| "delete_request RemoveAssignment org_id x =
     createOrganizationApplianceDnsLocalProfilesAssignmentsBulkDelete org_id
       (JList [JObj [(''assignmentId'', x)]])"

fun delete_op ::
  "delete_operation \<Rightarrow> 'r dashboard \<Rightarrow> json \<Rightarrow> json \<Rightarrow> 'r world \<Rightarrow> json result \<times> 'r world" where
  "delete_op DeleteProfile = delete_profile"
| "delete_op DeleteDnsRecord = delete_dns_record"
| "delete_op RemoveAssignment = remove_assignment"

text \<open>The cache holds an entry for the key that has not expired.\<close>

definition cache_live :: "nat \<Rightarrow> string \<Rightarrow> json list \<Rightarrow> 'r world \<Rightarrow> bool" where
  "cache_live ttl func args w =
     (case cache w (func, args) of Some (t0, v) \<Rightarrow> clock w < t0 + ttl | None \<Rightarrow> False)"

text \<open>
  A stub of the remote that holds the ids of the existing profiles: deleting one of them
  succeeds with no body, deleting any other id is refused.
\<close>

definition profile_store :: "json list dashboard" where
  "profile_store req ids =
     (case req of
        deleteOrganizationApplianceDnsLocalProfile org_id pid \<Rightarrow>
          if pid \<in> set ids then (Inr JNull, removeAll pid ids)
          else (Inl (APIError ''404 Not Found''), ids)
      | _ \<Rightarrow> (Inr JNull, ids))"

text \<open>A stub of the remote that numbers its answers: no two calls return the same value.\<close>

definition counting_remote :: "nat dashboard" where
  "counting_remote req n = (Inr (JList [JNum (int n)]), Suc n)"

section \<open>Properties\<close>

lemma sdk_call_fst: "fst (sdk_call d req w) = fst (d req (remote w))"
  by (simp add: sdk_call_def split: prod.split)

lemma sdk_call_sent: "sent (snd (sdk_call d req w)) = sent w @ [req]"
  by (simp add: sdk_call_def split: prod.split)

lemma increment_counter_remote [simp]: "remote (increment_counter ep w) = remote w"
  by (simp add: increment_counter_def Let_def)

lemma increment_counter_sent [simp]: "sent (increment_counter ep w) = sent w"
  by (simp add: increment_counter_def Let_def)

lemma increment_counter_clock [simp]: "clock (increment_counter ep w) = clock w"
  by (simp add: increment_counter_def Let_def)

lemma increment_counter_cache [simp]: "cache (increment_counter ep w) = cache w"
  by (simp add: increment_counter_def Let_def)

lemma logger_error_fields [simp]:
  "remote (logger_error m e w) = remote w"
  "sent (logger_error m e w) = sent w"
  "clock (logger_error m e w) = clock w"
  "cache (logger_error m e w) = cache w"
  by (simp_all add: logger_error_def)

lemma sdk_call_eq:
  "d req (remote w) = (out, r') \<Longrightarrow>
   sdk_call d req w = (out, w\<lparr>remote := r', sent := sent w @ [req]\<rparr>)"
  by (simp add: sdk_call_def)

subsection \<open>List operations\<close>

lemma list_op_result:
  assumes "d (list_request op org_id) (remote w) = (out, r')"
  shows "fst (list_op op d org_id w) =
           (case out of
              Inr response \<Rightarrow> dict_get response ''items'' (JList [])
            | Inl (APIError m) \<Rightarrow> Inr (JList [])
            | Inl ex \<Rightarrow> Inl ex)"
  using assms
  by (cases op)
     (simp_all add: list_profiles_def list_dns_records_def list_assignments_def sdk_call_eq
        split: sum.split exn.split)

text \<open>
  C2. Each of \<open>list_profiles\<close>, \<open>list_dns_records\<close>, \<open>list_assignments\<close>: when the remote
  call returns an envelope whose field \<open>items\<close> holds \<open>xs\<close>, the operation returns exactly
  \<open>xs\<close> (the same value, so the same items in the same order); when the envelope has no
  field \<open>items\<close> it returns the empty sequence; when the remote call raises the transport
  error it returns the empty sequence.
\<close>

theorem list_unwraps_envelope:
  assumes "d (list_request op org_id) (remote w) = (out, r')"
  shows "(out = Inr (JObj kvs) \<and> map_of kvs ''items'' = Some xs
            \<longrightarrow> fst (list_op op d org_id w) = Inr xs)
       \<and> (out = Inr (JObj kvs) \<and> map_of kvs ''items'' = None
            \<longrightarrow> fst (list_op op d org_id w) = Inr (JList []))
       \<and> (out = Inl (APIError m) \<longrightarrow> fst (list_op op d org_id w) = Inr (JList []))"
  using list_op_result [of d op org_id w out r'] assms
  by (simp add: dict_get_def)

theorem list_unwraps_envelope_witness:
  "fst (list_profiles (always (Inr (JObj [(''items'', JList [JStr ''a'', JStr ''b''])])))
          (JStr ''org1'') (fresh_world ())) = Inr (JList [JStr ''a'', JStr ''b''])
   \<and> fst (list_dns_records (always (Inr (JObj [(''meta'', JNull)])))
          (JStr ''org1'') (fresh_world ())) = Inr (JList [])
   \<and> fst (list_assignments (always (Inl (APIError ''503 Service Unavailable'')))
          (JStr ''org1'') (fresh_world ())) = Inr (JList [])"
  using
    list_unwraps_envelope [of "always (Inr (JObj [(''items'', JList [JStr ''a'', JStr ''b''])]))"
      ListProfiles "JStr ''org1''" "fresh_world ()"
      "Inr (JObj [(''items'', JList [JStr ''a'', JStr ''b''])])" "()"
      "[(''items'', JList [JStr ''a'', JStr ''b''])]" "JList [JStr ''a'', JStr ''b'']"]
    list_unwraps_envelope [of "always (Inr (JObj [(''meta'', JNull)]))"
      ListDnsRecords "JStr ''org1''" "fresh_world ()" "Inr (JObj [(''meta'', JNull)])" "()"
      "[(''meta'', JNull)]"]
    list_unwraps_envelope [of "always (Inl (APIError ''503 Service Unavailable''))"
      ListAssignments "JStr ''org1''" "fresh_world ()"
      "Inl (APIError ''503 Service Unavailable'')" "()" _ _ "''503 Service Unavailable''"]
  by (simp add: always_def fresh_world_def)

subsection \<open>Results of the gateway methods\<close>

lemma create_profile_fst:
  "fst (create_profile d org_id name w) =
     (case fst (d (createOrganizationApplianceDnsLocalProfile org_id name) (remote w)) of
        Inr created \<Rightarrow> Inr created
      | Inl (APIError e) \<Rightarrow> Inr (error_value e)
      | Inl ex \<Rightarrow> Inl ex)"
  by (simp add: create_profile_def sdk_call_def split: prod.split sum.split exn.split)

lemma create_dns_record_fst:
  "fst (create_dns_record d org_id profile_id hostname address w) =
     (case fst (d (createOrganizationApplianceDnsLocalRecord org_id hostname address
                     (JObj [(''id'', profile_id)])) (remote w)) of
        Inr created \<Rightarrow> Inr created
      | Inl (APIError e) \<Rightarrow> Inr (error_value e)
      | Inl ex \<Rightarrow> Inl ex)"
  by (simp add: create_dns_record_def Let_def sdk_call_def split: prod.split sum.split exn.split)

lemma assign_profile_fst:
  "fst (assign_profile d org_id network_id profile_id w) =
     (case fst (d (bulkOrganizationApplianceDnsLocalProfilesAssignmentsCreate org_id
                     (JList [JObj [(''network'', JObj [(''id'', network_id)]),
                                   (''profile'', JObj [(''id'', profile_id)])]])) (remote w)) of
        Inr created \<Rightarrow> Inr created
      | Inl (APIError e) \<Rightarrow> Inr (error_value e)
      | Inl ex \<Rightarrow> Inl ex)"
  by (simp add: assign_profile_def Let_def sdk_call_def split: prod.split sum.split exn.split)

lemma delete_op_fst:
  "fst (delete_op op d org_id x w) =
     (case fst (d (delete_request op org_id x) (remote w)) of
        Inr res \<Rightarrow> Inr (not_none_or_empty res)
      | Inl (APIError e) \<Rightarrow> Inr (error_value e)
      | Inl ex \<Rightarrow> Inl ex)"
  by (cases op)
     (simp_all add: delete_profile_def delete_dns_record_def remove_assignment_def Let_def sdk_call_def
        split: prod.split sum.split exn.split)

lemma list_op_fst:
  "fst (list_op op d org_id w) =
     (case fst (d (list_request op org_id) (remote w)) of
        Inr response \<Rightarrow> dict_get response ''items'' (JList [])
      | Inl (APIError m) \<Rightarrow> Inr (JList [])
      | Inl ex \<Rightarrow> Inl ex)"
  by (cases op)
     (simp_all add: list_profiles_def list_dns_records_def list_assignments_def sdk_call_def
        split: prod.split sum.split exn.split)

lemma cache_fetch_fst_fail:
  "fst (body w) = Inl ex \<Longrightarrow> cache_fetch func args body w = (Inl ex, snd (body w))"
  by (cases "body w") (simp add: cache_fetch_def)

lemma cache_data_miss:
  "\<not> cache_live ttl func args w \<Longrightarrow> cache_data ttl func args body w = cache_fetch func args body w"
  by (auto simp add: cache_data_def cache_live_def split: option.splits)

lemma sdk_call_fst': "fst (sdk_call d req (increment_counter ep w)) = fst (d req (remote w))"
  by (simp add: sdk_call_fst)

subsection \<open>Transport failures\<close>

text \<open>
  C1 (as amended). When the remote call raises the transport failure \<open>meraki.APIError\<close>:
  \<open>list_profiles\<close>, \<open>list_dns_records\<close> and \<open>list_assignments\<close> return the empty
  collection; create, assign, delete and remove return the error value, which has the field
  \<open>error\<close>; none of them lets the exception out. \<open>get_organizations\<close> and
  \<open>get_networks\<close> have no handler: when the cache holds no live entry the failure of
  their remote call reaches the caller.
\<close>

theorem transport_failure_handling:
  assumes failing: "\<And>req. fst (d req (remote w)) = Inl (APIError m)"
  shows "fst (list_op op d org_id w) = Inr (JList [])
       \<and> fst (create_profile d org_id name w) = Inr (error_value m)
       \<and> fst (create_dns_record d org_id profile_id hostname address w) = Inr (error_value m)
       \<and> fst (assign_profile d org_id network_id profile_id w) = Inr (error_value m)
       \<and> fst (delete_op dop d org_id x w) = Inr (error_value m)
       \<and> has_error (error_value m)
       \<and> (\<not> cache_live (CACHE_CONFIG long) ''get_organizations'' [] w
            \<longrightarrow> fst (get_organizations d w) = Inl (APIError m))
       \<and> (\<not> cache_live (CACHE_CONFIG medium) ''get_networks'' [org_id] w
            \<longrightarrow> fst (get_networks d org_id w) = Inl (APIError m))"
proof -
  have orgs: "fst (get_organizations d w) = Inl (APIError m)"
    if "\<not> cache_live (CACHE_CONFIG long) ''get_organizations'' [] w"
    unfolding get_organizations_def cache_data_miss [OF that]
    by (subst cache_fetch_fst_fail [where ex = "APIError m"]) (simp_all add: sdk_call_fst' failing)
  have nets: "fst (get_networks d org_id w) = Inl (APIError m)"
    if "\<not> cache_live (CACHE_CONFIG medium) ''get_networks'' [org_id] w"
    unfolding get_networks_def cache_data_miss [OF that]
    by (subst cache_fetch_fst_fail [where ex = "APIError m"]) (simp_all add: sdk_call_fst' failing)
  show ?thesis
    using orgs nets
    by (simp add: list_op_fst create_profile_fst create_dns_record_fst assign_profile_fst
          delete_op_fst failing has_error_def error_value_def)
qed

theorem transport_failure_handling_witness:
  "fst (list_profiles (always (Inl (APIError ''503''))) (JStr ''o'') (fresh_world ())) = Inr (JList [])
   \<and> fst (delete_profile (always (Inl (APIError ''503''))) (JStr ''o'') (JStr ''p'') (fresh_world ()))
       = Inr (JObj [(''error'', JStr ''503'')])
   \<and> fst (get_organizations (always (Inl (APIError ''503''))) (fresh_world ())) = Inl (APIError ''503'')
   \<and> fst (get_networks (always (Inl (APIError ''503''))) (JStr ''o'') (fresh_world ())) = Inl (APIError ''503'')"
  using transport_failure_handling [of "always (Inl (APIError ''503''))" "fresh_world ()" "''503''"
     ListProfiles "JStr ''o''" _ _ _ _ _ DeleteProfile "JStr ''p''"]
  by (simp add: always_def fresh_world_def cache_live_def error_value_def)

text \<open>
  C1 as stated fails: against a remote that raises the transport failure,
  \<open>get_organizations\<close> and \<open>get_networks\<close> return no empty collection; the
  exception leaves the gateway.
\<close>

theorem cached_reads_propagate_counterexample:
  "fst (get_organizations (always (Inl (APIError ''503 Service Unavailable''))) (fresh_world ()))
     = Inl (APIError ''503 Service Unavailable'')
   \<and> fst (get_networks (always (Inl (APIError ''503 Service Unavailable''))) (JStr ''org1'')
            (fresh_world ()))
     = Inl (APIError ''503 Service Unavailable'')"
  by (simp add: get_organizations_def get_networks_def cache_data_def cache_fetch_def sdk_call_def
        increment_counter_def always_def fresh_world_def)

subsection \<open>Creating a profile\<close>




subsection \<open>What reaches the remote\<close>

lemma delete_op_remote:
  "remote (snd (delete_op op d org_id x w)) = snd (d (delete_request op org_id x) (remote w))"
  by (cases op)
     (simp_all add: delete_profile_def delete_dns_record_def remove_assignment_def Let_def
        sdk_call_def split: prod.split sum.split exn.split)

lemma delete_op_sent:
  "sent (snd (delete_op op d org_id x w)) = sent w @ [delete_request op org_id x]"
  by (cases op)
     (simp_all add: delete_profile_def delete_dns_record_def remove_assignment_def Let_def
        sdk_call_def split: prod.split sum.split exn.split)

lemma assign_profile_sent:
  "sent (snd (assign_profile d org_id network_id profile_id w)) =
     sent w @ [bulkOrganizationApplianceDnsLocalProfilesAssignmentsCreate org_id
                 (JList [JObj [(''network'', JObj [(''id'', network_id)]),
                               (''profile'', JObj [(''id'', profile_id)])]])]"
  by (simp add: assign_profile_def Let_def sdk_call_def split: prod.split sum.split exn.split)

lemma create_dns_record_sent:
  "sent (snd (create_dns_record d org_id profile_id hostname address w)) =
     sent w @ [createOrganizationApplianceDnsLocalRecord org_id hostname address
                 (JObj [(''id'', profile_id)])]"
  by (simp add: create_dns_record_def Let_def sdk_call_def split: prod.split sum.split exn.split)

subsection \<open>Delete operations\<close>

text \<open>
  C4 (as amended). Each of \<open>delete_profile\<close>, \<open>delete_dns_record\<close>,
  \<open>remove_assignment\<close> never returns a null value: when the remote call returns nothing
  the result is the empty mapping; when the remote call returns a value the result is that
  value, unchanged; when the remote call raises the transport failure the result is the
  mapping \<open>{error: message}\<close>. The error mapping has the field \<open>error\<close> and the empty
  success marker has not.
\<close>

theorem delete_result:
  assumes "d (delete_request op org_id x) (remote w) = (out, r')"
  shows "fst (delete_op op d org_id x w) \<noteq> Inr JNull
       \<and> (out = Inr JNull \<longrightarrow> fst (delete_op op d org_id x w) = Inr (JObj []))
       \<and> (out = Inr res \<and> res \<noteq> JNull \<longrightarrow> fst (delete_op op d org_id x w) = Inr res)
       \<and> (out = Inl (APIError m) \<longrightarrow> fst (delete_op op d org_id x w) = Inr (error_value m))
       \<and> has_error (error_value m) \<and> \<not> has_error (JObj [])"
  using assms
  by (auto simp add: delete_op_fst not_none_or_empty_def error_value_def has_error_def
        split: sum.split exn.split)

theorem delete_result_witness:
  "fst (delete_profile (always (Inr JNull)) (JStr ''org1'') (JStr ''p1'') (fresh_world ()))
     = Inr (JObj [])
   \<and> fst (remove_assignment (always (Inr (JObj [(''items'', JList [])])))
            (JStr ''org1'') (JStr ''a1'') (fresh_world ()))
     = Inr (JObj [(''items'', JList [])])
   \<and> fst (delete_dns_record (always (Inl (APIError ''404 Not Found'')))
            (JStr ''org1'') (JStr ''r1'') (fresh_world ()))
     = Inr (JObj [(''error'', JStr ''404 Not Found'')])"
  using
    delete_result [of "always (Inr JNull)" DeleteProfile "JStr ''org1''" "JStr ''p1''"
      "fresh_world ()" "Inr JNull" "()"]
    delete_result [of "always (Inr (JObj [(''items'', JList [])]))" RemoveAssignment
      "JStr ''org1''" "JStr ''a1''" "fresh_world ()" "Inr (JObj [(''items'', JList [])])" "()"
      "JObj [(''items'', JList [])]"]
    delete_result [of "always (Inl (APIError ''404 Not Found''))" DeleteDnsRecord
      "JStr ''org1''" "JStr ''r1''" "fresh_world ()" "Inl (APIError ''404 Not Found'')" "()"
      _ "''404 Not Found''"]
  by (simp add: always_def fresh_world_def error_value_def)

text \<open>
  C4 as stated fails: a remote call that answers the removal with a body makes
  \<open>remove_assignment\<close> return that body, which is neither the empty mapping nor an error
  mapping.
\<close>

theorem delete_result_counterexample:
  "fst (remove_assignment
          (always (Inr (JObj [(''items'', JList [JObj [(''assignmentId'', JStr ''a1'')]])])))
          (JStr ''org1'') (JStr ''a1'') (fresh_world ()))
     = Inr (JObj [(''items'', JList [JObj [(''assignmentId'', JStr ''a1'')]])])
   \<and> JObj [(''items'', JList [JObj [(''assignmentId'', JStr ''a1'')]])] \<noteq> JObj []
   \<and> \<not> has_error (JObj [(''items'', JList [JObj [(''assignmentId'', JStr ''a1'')]])])"
  by (simp add: remove_assignment_def Let_def sdk_call_def increment_counter_def always_def
        fresh_world_def not_none_or_empty_def has_error_def)

subsection \<open>Request shapes\<close>

text \<open>
  C5. Whatever the remote answers, \<open>assign_profile\<close> sends one request whose batch is
  exactly the single element \<open>{network: {id: network_id}, profile: {id: profile_id}}\<close>,
  \<open>remove_assignment\<close> sends one request whose batch is exactly the single element
  \<open>{assignmentId: assignment_id}\<close>, and \<open>create_dns_record\<close> sends one request whose
  profile argument is exactly \<open>{id: profile_id}\<close>.
\<close>

theorem request_shapes:
  "sent (snd (assign_profile d org_id network_id profile_id w)) =
     sent w @ [bulkOrganizationApplianceDnsLocalProfilesAssignmentsCreate org_id
                 (JList [JObj [(''network'', JObj [(''id'', network_id)]),
                               (''profile'', JObj [(''id'', profile_id)])]])]
   \<and> sent (snd (remove_assignment d org_id assignment_id w)) =
     sent w @ [createOrganizationApplianceDnsLocalProfilesAssignmentsBulkDelete org_id
                 (JList [JObj [(''assignmentId'', assignment_id)]])]
   \<and> sent (snd (create_dns_record d org_id profile_id hostname address w)) =
     sent w @ [createOrganizationApplianceDnsLocalRecord org_id hostname address
                 (JObj [(''id'', profile_id)])]"
  using delete_op_sent [of RemoveAssignment d org_id assignment_id w]
  by (simp add: assign_profile_sent create_dns_record_sent)

subsection \<open>Deleting twice\<close>

text \<open>
  C9. Two calls of \<open>delete_profile\<close> in succession for the same id: when the remote
  refuses both deletions with the transport failure, both calls return an error value; when
  the remote answers both with nothing, both calls return the empty success marker; and
  whatever the first call did, a second remote call that returns or raises the transport
  failure makes the second \<open>delete_profile\<close> return a value, never raise.
\<close>

theorem delete_profile_twice:
  assumes first: "d (deleteOrganizationApplianceDnsLocalProfile org_id pid) (remote w) = (out1, r1)"
      and second: "d (deleteOrganizationApplianceDnsLocalProfile org_id pid) r1 = (out2, r2)"
  shows "((\<exists>m. out1 = Inl (APIError m)) \<and> (\<exists>m. out2 = Inl (APIError m)) \<longrightarrow>
            (\<exists>m. fst (delete_profile d org_id pid w) = Inr (error_value m))
          \<and> (\<exists>m. fst (delete_profile d org_id pid (snd (delete_profile d org_id pid w)))
                  = Inr (error_value m)))
       \<and> (out1 = Inr JNull \<and> out2 = Inr JNull \<longrightarrow>
            fst (delete_profile d org_id pid w) = Inr (JObj [])
          \<and> fst (delete_profile d org_id pid (snd (delete_profile d org_id pid w))) = Inr (JObj []))
       \<and> ((\<exists>v. out2 = Inr v) \<or> (\<exists>m. out2 = Inl (APIError m)) \<longrightarrow>
            (\<exists>b. fst (delete_profile d org_id pid (snd (delete_profile d org_id pid w))) = Inr b))"
proof -
  have r: "remote (snd (delete_profile d org_id pid w)) = r1"
    using delete_op_remote [of DeleteProfile d org_id pid w] first by simp
  have a: "fst (delete_profile d org_id pid w) =
             (case out1 of Inr res \<Rightarrow> Inr (not_none_or_empty res)
              | Inl (APIError e) \<Rightarrow> Inr (error_value e) | Inl ex \<Rightarrow> Inl ex)"
    using delete_op_fst [of DeleteProfile d org_id pid w] first by simp
  have b: "fst (delete_profile d org_id pid (snd (delete_profile d org_id pid w))) =
             (case out2 of Inr res \<Rightarrow> Inr (not_none_or_empty res)
              | Inl (APIError e) \<Rightarrow> Inr (error_value e) | Inl ex \<Rightarrow> Inl ex)"
    using delete_op_fst [of DeleteProfile d org_id pid "snd (delete_profile d org_id pid w)"]
      second r by simp
  show ?thesis
    unfolding a b by (auto simp add: not_none_or_empty_def)
qed

theorem delete_profile_twice_witness:
  "(\<exists>m. fst (delete_profile profile_store (JStr ''org1'') (JStr ''p1'') (fresh_world []))
          = Inr (error_value m))
   \<and> (\<exists>m. fst (delete_profile profile_store (JStr ''org1'') (JStr ''p1'')
                 (snd (delete_profile profile_store (JStr ''org1'') (JStr ''p1'') (fresh_world []))))
          = Inr (error_value m))
   \<and> fst (delete_profile (always (Inr JNull)) (JStr ''org1'') (JStr ''p1'') (fresh_world ()))
       = Inr (JObj [])
   \<and> fst (delete_profile (always (Inr JNull)) (JStr ''org1'') (JStr ''p1'')
            (snd (delete_profile (always (Inr JNull)) (JStr ''org1'') (JStr ''p1'') (fresh_world ()))))
       = Inr (JObj [])"
  using
    delete_profile_twice [of profile_store "JStr ''org1''" "JStr ''p1''" "fresh_world []"
      "Inl (APIError ''404 Not Found'')" "[]" "Inl (APIError ''404 Not Found'')" "[]"]
    delete_profile_twice [of "always (Inr JNull)" "JStr ''org1''" "JStr ''p1''" "fresh_world ()"
      "Inr JNull" "()" "Inr JNull" "()"]
  by (simp add: profile_store_def always_def fresh_world_def)

subsection \<open>The cached reads\<close>

lemma sdk_body_clock [simp]:
  "clock (snd (sdk_call d req (increment_counter ep w))) = clock w"
  by (simp add: sdk_call_def split: prod.split)

lemma sdk_body_cache [simp]:
  "cache (snd (sdk_call d req (increment_counter ep w))) = cache w"
  by (simp add: sdk_call_def split: prod.split)

lemma sdk_body_sent [simp]:
  "sent (snd (sdk_call d req (increment_counter ep w))) = sent w @ [req]"
  by (simp add: sdk_call_def split: prod.split)

lemma cache_fetch_sent:
  "sent (snd (cache_fetch func args body w)) = sent (snd (body w))"
  by (cases "body w") (simp add: cache_fetch_def split: sum.split)

lemma cache_fetch_clock:
  "clock (snd (cache_fetch func args body w)) = clock (snd (body w))"
  by (cases "body w") (simp add: cache_fetch_def split: sum.split)

lemma cache_fetch_fst:
  "fst (cache_fetch func args body w) = fst (body w)"
  by (cases "body w") (simp add: cache_fetch_def split: sum.split)

lemma cache_fetch_cache:
  "cache (snd (cache_fetch func args body w)) =
     (case fst (body w) of
        Inr v \<Rightarrow> (cache (snd (body w)))((func, args) \<mapsto> (clock (snd (body w)), v))
      | Inl ex \<Rightarrow> cache (snd (body w)))"
  by (cases "body w") (simp add: cache_fetch_def split: sum.split)

lemma cache_data_hit:
  "cache_live ttl func args w \<Longrightarrow>
   cache_data ttl func args body w = (Inr (snd (the (cache w (func, args)))), w)"
  by (auto simp add: cache_data_def cache_live_def split: option.splits)

lemma cache_live_elapse:
  "cache_live ttl func args (elapse dt w) =
     (case cache w (func, args) of Some (t0, v) \<Rightarrow> clock w + dt < t0 + ttl | None \<Rightarrow> False)"
  by (simp add: cache_live_def elapse_def split: option.split)

lemma elapse_fields [simp]:
  "sent (elapse dt w) = sent w"
  "remote (elapse dt w) = remote w"
  "cache (elapse dt w) = cache w"
  "clock (elapse dt w) = clock w + dt"
  by (simp_all add: elapse_def)

lemma get_organizations_miss:
  assumes "\<not> cache_live (CACHE_CONFIG long) ''get_organizations'' [] w"
  shows "fst (get_organizations d w) = fst (d getOrganizations (remote w))"
    and "sent (snd (get_organizations d w)) = sent w @ [getOrganizations]"
    and "clock (snd (get_organizations d w)) = clock w"
    and "cache (snd (get_organizations d w)) =
           (case fst (d getOrganizations (remote w)) of
              Inr v \<Rightarrow> (cache w)((''get_organizations'', []) \<mapsto> (clock w, v))
            | Inl ex \<Rightarrow> cache w)"
  unfolding get_organizations_def cache_data_miss [OF assms]
  by (simp_all add: cache_fetch_fst cache_fetch_sent cache_fetch_clock cache_fetch_cache
        sdk_call_fst split: sum.split)

lemma get_organizations_hit:
  assumes "cache_live (CACHE_CONFIG long) ''get_organizations'' [] w"
  shows "get_organizations d w = (Inr (snd (the (cache w (''get_organizations'', [])))), w)"
  unfolding get_organizations_def by (rule cache_data_hit [OF assms])

text \<open>
  C6 (as amended). For every pair of \<open>get_organizations\<close> calls that starts with no live
  entry for the organizations: when the fetch of the first call succeeds and the second
  call comes less than the organizations TTL later, both calls return the fetched value
  and exactly one remote call has been issued; when the second call comes more than the
  TTL later, two remote calls have been issued. The networks TTL (3600 s) is strictly
  smaller than the organizations TTL (86400 s).
\<close>

theorem organizations_cache:
  assumes miss: "\<not> cache_live (CACHE_CONFIG long) ''get_organizations'' [] w"
  shows "(d getOrganizations (remote w) = (Inr v, r') \<and> dt < CACHE_CONFIG long \<longrightarrow>
            fst (get_organizations d w) = Inr v
          \<and> fst (get_organizations d (elapse dt (snd (get_organizations d w)))) = Inr v
          \<and> sent (snd (get_organizations d (elapse dt (snd (get_organizations d w)))))
              = sent w @ [getOrganizations])
       \<and> (CACHE_CONFIG long < dt \<longrightarrow>
            sent (snd (get_organizations d (elapse dt (snd (get_organizations d w)))))
              = sent w @ [getOrganizations, getOrganizations])
       \<and> CACHE_CONFIG medium < CACHE_CONFIG long"
proof -
  let ?w1 = "snd (get_organizations d w)"
  note m = get_organizations_miss [OF miss, of d]
  have within: "fst (get_organizations d w) = Inr v
          \<and> fst (get_organizations d (elapse dt ?w1)) = Inr v
          \<and> sent (snd (get_organizations d (elapse dt ?w1))) = sent w @ [getOrganizations]"
    if ok: "d getOrganizations (remote w) = (Inr v, r')" and dt: "dt < CACHE_CONFIG long"
  proof -
    have c: "cache ?w1 (''get_organizations'', []) = Some (clock w, v)"
      using m(4) ok by simp
    have live: "cache_live (CACHE_CONFIG long) ''get_organizations'' [] (elapse dt ?w1)"
      using c dt m(3) by (simp add: cache_live_elapse)
    show ?thesis
      using m(1) m(2) ok c by (simp add: get_organizations_hit [OF live])
  qed
  have beyond: "sent (snd (get_organizations d (elapse dt ?w1)))
                  = sent w @ [getOrganizations, getOrganizations]"
    if dt: "CACHE_CONFIG long < dt"
  proof -
    have dead: "\<not> cache_live (CACHE_CONFIG long) ''get_organizations'' [] (elapse dt ?w1)"
      using miss m(3) m(4) dt
      by (auto simp add: cache_live_elapse cache_live_def split: option.splits sum.splits)
    show ?thesis
      using get_organizations_miss(2) [OF dead, of d] m(2) by simp
  qed
  show ?thesis using within beyond by simp
qed

theorem organizations_cache_witness:
  "fst (get_organizations counting_remote (fresh_world 0)) = Inr (JList [JNum 0])
   \<and> fst (get_organizations counting_remote
            (elapse 86399 (snd (get_organizations counting_remote (fresh_world 0)))))
       = Inr (JList [JNum 0])
   \<and> sent (snd (get_organizations counting_remote
            (elapse 86399 (snd (get_organizations counting_remote (fresh_world 0))))))
       = [getOrganizations]
   \<and> sent (snd (get_organizations counting_remote
            (elapse 86401 (snd (get_organizations counting_remote (fresh_world 0))))))
       = [getOrganizations, getOrganizations]"
  using organizations_cache [of "fresh_world 0" counting_remote "JList [JNum 0]" "Suc 0" 86399]
        organizations_cache [of "fresh_world 0" counting_remote "JList [JNum 0]" "Suc 0" 86401]
  by (simp add: cache_live_def fresh_world_def counting_remote_def)

text \<open>
  C6 as stated fails for pairs of calls less than the TTL apart. After a first call has
  filled the cache, the next two calls issue no remote call at all; and against a remote
  that raises the transport failure, nothing is cached and two calls issue two remote
  calls.
\<close>

theorem organizations_cache_counterexample:
  "sent (snd (get_organizations counting_remote (fresh_world 0))) = [getOrganizations]
   \<and> sent (snd (get_organizations counting_remote
            (elapse 10 (snd (get_organizations counting_remote
               (elapse 10 (snd (get_organizations counting_remote (fresh_world 0)))))))))
       = [getOrganizations]
   \<and> sent (snd (get_organizations (always (Inl (APIError ''503 Service Unavailable'')))
            (elapse 10 (snd (get_organizations
               (always (Inl (APIError ''503 Service Unavailable''))) (fresh_world ()))))))
       = [getOrganizations, getOrganizations]"
  by (simp add: get_organizations_def cache_data_def cache_fetch_def sdk_call_def
        increment_counter_def elapse_def fresh_world_def counting_remote_def always_def)







subsection \<open>Relational lookups\<close>

lemma named_itemD:
  "named_item kf p \<Longrightarrow> \<exists>s v. subscript p kf = Inr (JStr s) \<and> subscript p ''name'' = Inr v"
  by (auto simp add: named_item_def split: sum.splits json.splits)

lemma dict_key_not_str: "JStr s \<noteq> k \<Longrightarrow> JStr s \<noteq> dict_key k"
  by (cases k) simp_all

lemma build_lookup_no_match:
  assumes "\<forall>p \<in> set ps. named_item kf p"
      and "\<forall>p \<in> set ps. subscript p kf \<noteq> Inr k"
  shows "\<exists>lk. build_lookup kf ps acc = Inr lk \<and> map_of lk (dict_key k) = map_of acc (dict_key k)"
  using assms
proof (induction ps arbitrary: acc)
  case Nil
  then show ?case by simp
next
  case (Cons p ps)
  from Cons.prems(1) obtain s v
    where p: "subscript p kf = Inr (JStr s)" "subscript p ''name'' = Inr v"
    using named_itemD [of kf p] by auto
  from Cons.prems(2) p have "JStr s \<noteq> k" by auto
  then have ne: "JStr s \<noteq> dict_key k" by (rule dict_key_not_str)
  from Cons.IH [of "AList.update (JStr s) v acc"] Cons.prems
  obtain lk where "build_lookup kf ps (AList.update (JStr s) v acc) = Inr lk"
    and "map_of lk (dict_key k) = map_of (AList.update (JStr s) v acc) (dict_key k)"
    by auto
  then show ?case using p ne by (simp add: update_conv')
qed

lemma build_lookup_last_match:
  assumes "\<forall>q \<in> set (before @ p # after). named_item kf q"
      and "subscript p kf = Inr k"
      and "\<forall>q \<in> set after. subscript q kf \<noteq> Inr k"
  shows "\<exists>lk v. build_lookup kf (before @ p # after) acc = Inr lk
           \<and> subscript p ''name'' = Inr v \<and> map_of lk (dict_key k) = Some v"
  using assms
proof (induction before arbitrary: acc)
  case Nil
  from Nil.prems(1) obtain s v
    where p: "subscript p kf = Inr (JStr s)" "subscript p ''name'' = Inr v"
    using named_itemD [of kf p] by auto
  with Nil.prems(2) have k: "k = JStr s" by simp
  from build_lookup_no_match [of after kf k "AList.update (JStr s) v acc"] Nil.prems
  obtain lk where "build_lookup kf after (AList.update (JStr s) v acc) = Inr lk"
    and "map_of lk (dict_key k) = map_of (AList.update (JStr s) v acc) (dict_key k)"
    by auto
  then show ?case using p k by (simp add: update_conv')
next
  case (Cons b before)
  from Cons.prems(1) obtain s v
    where b: "subscript b kf = Inr (JStr s)" "subscript b ''name'' = Inr v"
    using named_itemD [of kf b] by auto
  from Cons.IH [of "AList.update (JStr s) v acc"] Cons.prems
  show ?case using b by simp
qed

lemma build_lookup_total:
  assumes "\<forall>p \<in> set ps. named_item kf p"
  shows "\<exists>lk. build_lookup kf ps acc = Inr lk"
  using assms
proof (induction ps arbitrary: acc)
  case Nil
  then show ?case by simp
next
  case (Cons p ps)
  from Cons.prems obtain s v
    where p: "subscript p kf = Inr (JStr s)" "subscript p ''name'' = Inr v"
    using named_itemD [of kf p] by auto
  from Cons.IH [of "AList.update (JStr s) v acc"] Cons.prems
  show ?case using p by simp
qed

lemma resolve_unknown:
  assumes wf: "\<forall>p \<in> set ps. named_item kf p" and h: "hashable k"
      and lk: "build_lookup kf ps [] = Inr lk"
      and no: "\<forall>p \<in> set ps. subscript p kf \<noteq> Inr k"
  shows "lookup_get lk k (JStr ''Unknown'') = Inr (JStr ''Unknown'')"
proof -
  from build_lookup_no_match [OF wf no, of "[]"] lk
  have "map_of lk (dict_key k) = None" by simp
  then show ?thesis using h by (simp add: lookup_get_def)
qed

lemma resolve_match:
  assumes wf: "\<forall>q \<in> set (before @ p # after). named_item kf q" and h: "hashable k"
      and lk: "build_lookup kf (before @ p # after) [] = Inr lk"
      and p: "subscript p kf = Inr k"
      and later: "\<forall>q \<in> set after. subscript q kf \<noteq> Inr k"
  shows "lookup_get lk k (JStr ''Unknown'') = subscript p ''name''"
proof -
  from build_lookup_last_match [OF wf p later, of "[]"] lk
  obtain v where "subscript p ''name'' = Inr v" "map_of lk (dict_key k) = Some v"
    by auto
  then show ?thesis using h by (simp add: lookup_get_def)
qed

lemma pname_resolves:
  assumes profs: "\<forall>p \<in> set profiles. named_item ''profileId'' p"
      and ref: "ref_id ''profile'' (JStr ''N/A'') r = Inr pid"
      and h: "hashable pid"
  shows "(\<forall>p \<in> set profiles. subscript p ''profileId'' \<noteq> Inr pid)
            \<longrightarrow> pname (JList profiles) r = Inr (JStr ''Unknown'')"
    and "\<forall>before p after.
            profiles = before @ p # after \<and> subscript p ''profileId'' = Inr pid
            \<and> (\<forall>q \<in> set after. subscript q ''profileId'' \<noteq> Inr pid)
            \<longrightarrow> pname (JList profiles) r = subscript p ''name''"
proof -
  from build_lookup_total [OF profs, of "[]"] obtain lk
    where lk: "build_lookup ''profileId'' profiles [] = Inr lk" by blast
  have pn: "pname (JList profiles) r = lookup_get lk pid (JStr ''Unknown'')"
    using lk ref by (simp add: pname_def prof_lookup_def)
  show "(\<forall>p \<in> set profiles. subscript p ''profileId'' \<noteq> Inr pid)
            \<longrightarrow> pname (JList profiles) r = Inr (JStr ''Unknown'')"
  proof (rule impI)
    assume "\<forall>p \<in> set profiles. subscript p ''profileId'' \<noteq> Inr pid"
    from resolve_unknown [OF profs h lk this] pn
    show "pname (JList profiles) r = Inr (JStr ''Unknown'')" by simp
  qed
  show "\<forall>before p after.
            profiles = before @ p # after \<and> subscript p ''profileId'' = Inr pid
            \<and> (\<forall>q \<in> set after. subscript q ''profileId'' \<noteq> Inr pid)
            \<longrightarrow> pname (JList profiles) r = subscript p ''name''"
  proof (intro allI impI, elim conjE)
    fix before p after
    assume eq: "profiles = before @ p # after"
      and p: "subscript p ''profileId'' = Inr pid"
      and later: "\<forall>q \<in> set after. subscript q ''profileId'' \<noteq> Inr pid"
    from resolve_match [OF profs [unfolded eq] h lk [unfolded eq] p later] pn
    show "pname (JList profiles) r = subscript p ''name''" by simp
  qed
qed

lemma assignment_names_resolves:
  assumes profs: "\<forall>p \<in> set profiles. named_item ''profileId'' p"
      and nets: "\<forall>n \<in> set networks. named_item ''id'' n"
      and refs: "ref_id ''network'' JNull a = Inr n_id" "ref_id ''profile'' JNull a = Inr p_id"
      and h: "hashable n_id" "hashable p_id"
  shows "\<exists>n_name p_name.
           assignment_names (JList networks) (JList profiles) a = Inr (n_name, p_name)
         \<and> ((\<forall>n \<in> set networks. subscript n ''id'' \<noteq> Inr n_id)
               \<longrightarrow> n_name = JStr ''Unknown'')
         \<and> ((\<forall>p \<in> set profiles. subscript p ''profileId'' \<noteq> Inr p_id)
               \<longrightarrow> p_name = JStr ''Unknown'')
         \<and> (\<forall>before n after.
               networks = before @ n # after \<and> subscript n ''id'' = Inr n_id
               \<and> (\<forall>q \<in> set after. subscript q ''id'' \<noteq> Inr n_id)
               \<longrightarrow> subscript n ''name'' = Inr n_name)
         \<and> (\<forall>before p after.
               profiles = before @ p # after \<and> subscript p ''profileId'' = Inr p_id
               \<and> (\<forall>q \<in> set after. subscript q ''profileId'' \<noteq> Inr p_id)
               \<longrightarrow> subscript p ''name'' = Inr p_name)"
proof -
  from build_lookup_total [OF nets, of "[]"] obtain nl
    where nl: "build_lookup ''id'' networks [] = Inr nl" by blast
  from build_lookup_total [OF profs, of "[]"] obtain pl
    where pl: "build_lookup ''profileId'' profiles [] = Inr pl" by blast
  obtain n_name where nn: "lookup_get nl n_id (JStr ''Unknown'') = Inr n_name"
    using h(1) by (simp add: lookup_get_def)
  obtain p_name where pn: "lookup_get pl p_id (JStr ''Unknown'') = Inr p_name"
    using h(2) by (simp add: lookup_get_def)
  have an: "assignment_names (JList networks) (JList profiles) a = Inr (n_name, p_name)"
    using nl pl nn pn refs by (simp add: assignment_names_def net_lookup_def prof_lookup_def)
  have n3: "(\<forall>n \<in> set networks. subscript n ''id'' \<noteq> Inr n_id) \<longrightarrow> n_name = JStr ''Unknown''"
  proof (rule impI)
    assume "\<forall>n \<in> set networks. subscript n ''id'' \<noteq> Inr n_id"
    from resolve_unknown [OF nets h(1) nl this] nn show "n_name = JStr ''Unknown''" by simp
  qed
  have p3: "(\<forall>p \<in> set profiles. subscript p ''profileId'' \<noteq> Inr p_id) \<longrightarrow> p_name = JStr ''Unknown''"
  proof (rule impI)
    assume "\<forall>p \<in> set profiles. subscript p ''profileId'' \<noteq> Inr p_id"
    from resolve_unknown [OF profs h(2) pl this] pn show "p_name = JStr ''Unknown''" by simp
  qed
  have n4: "\<forall>before n after.
               networks = before @ n # after \<and> subscript n ''id'' = Inr n_id
               \<and> (\<forall>q \<in> set after. subscript q ''id'' \<noteq> Inr n_id)
               \<longrightarrow> subscript n ''name'' = Inr n_name"
  proof (intro allI impI, elim conjE)
    fix before n after
    assume eq: "networks = before @ n # after"
      and n: "subscript n ''id'' = Inr n_id"
      and later: "\<forall>q \<in> set after. subscript q ''id'' \<noteq> Inr n_id"
    from resolve_match [OF nets [unfolded eq] h(1) nl [unfolded eq] n later] nn
    show "subscript n ''name'' = Inr n_name" by simp
  qed
  have p4: "\<forall>before p after.
               profiles = before @ p # after \<and> subscript p ''profileId'' = Inr p_id
               \<and> (\<forall>q \<in> set after. subscript q ''profileId'' \<noteq> Inr p_id)
               \<longrightarrow> subscript p ''name'' = Inr p_name"
  proof (intro allI impI, elim conjE)
    fix before p after
    assume eq: "profiles = before @ p # after"
      and p: "subscript p ''profileId'' = Inr p_id"
      and later: "\<forall>q \<in> set after. subscript q ''profileId'' \<noteq> Inr p_id"
    from resolve_match [OF profs [unfolded eq] h(2) pl [unfolded eq] p later] pn
    show "subscript p ''name'' = Inr p_name" by simp
  qed
  show ?thesis
    by (rule exI [of _ n_name], rule exI [of _ p_name]) (intro conjI an n3 p3 n4 p4)
qed

text \<open>
  C8. For fetched collections whose items are dicts with a string id and a name, and a
  record (or assignment) whose reference holds a hashable id: the lookup never fails; when
  the id matches no item of the collection it yields the literal \<open>Unknown\<close>; when it
  matches, it yields the name of the matching item (of the last one, should an id occur
  twice). This holds for \<open>pname\<close> of the DNS Records page and for both names of the
  Network Assignments page.
\<close>

theorem relational_lookup:
  assumes profs: "\<forall>p \<in> set profiles. named_item ''profileId'' p"
      and nets: "\<forall>n \<in> set networks. named_item ''id'' n"
  shows "(ref_id ''profile'' (JStr ''N/A'') r = Inr pid \<and> hashable pid \<longrightarrow>
            ((\<forall>p \<in> set profiles. subscript p ''profileId'' \<noteq> Inr pid)
               \<longrightarrow> pname (JList profiles) r = Inr (JStr ''Unknown''))
          \<and> (\<forall>before p after.
                profiles = before @ p # after \<and> subscript p ''profileId'' = Inr pid
                \<and> (\<forall>q \<in> set after. subscript q ''profileId'' \<noteq> Inr pid)
                \<longrightarrow> pname (JList profiles) r = subscript p ''name''))
       \<and> (ref_id ''network'' JNull a = Inr n_id \<and> ref_id ''profile'' JNull a = Inr p_id
            \<and> hashable n_id \<and> hashable p_id \<longrightarrow>
            (\<exists>n_name p_name.
                assignment_names (JList networks) (JList profiles) a = Inr (n_name, p_name)
              \<and> ((\<forall>n \<in> set networks. subscript n ''id'' \<noteq> Inr n_id)
                    \<longrightarrow> n_name = JStr ''Unknown'')
              \<and> ((\<forall>p \<in> set profiles. subscript p ''profileId'' \<noteq> Inr p_id)
                    \<longrightarrow> p_name = JStr ''Unknown'')
              \<and> (\<forall>before n after.
                    networks = before @ n # after \<and> subscript n ''id'' = Inr n_id
                    \<and> (\<forall>q \<in> set after. subscript q ''id'' \<noteq> Inr n_id)
                    \<longrightarrow> subscript n ''name'' = Inr n_name)
              \<and> (\<forall>before p after.
                    profiles = before @ p # after \<and> subscript p ''profileId'' = Inr p_id
                    \<and> (\<forall>q \<in> set after. subscript q ''profileId'' \<noteq> Inr p_id)
                    \<longrightarrow> subscript p ''name'' = Inr p_name)))"
proof -
  have dns: "ref_id ''profile'' (JStr ''N/A'') r = Inr pid \<and> hashable pid \<longrightarrow>
            ((\<forall>p \<in> set profiles. subscript p ''profileId'' \<noteq> Inr pid)
               \<longrightarrow> pname (JList profiles) r = Inr (JStr ''Unknown''))
          \<and> (\<forall>before p after.
                profiles = before @ p # after \<and> subscript p ''profileId'' = Inr pid
                \<and> (\<forall>q \<in> set after. subscript q ''profileId'' \<noteq> Inr pid)
                \<longrightarrow> pname (JList profiles) r = subscript p ''name'')"
  proof (rule impI, elim conjE)
    assume ref: "ref_id ''profile'' (JStr ''N/A'') r = Inr pid" and h: "hashable pid"
    from pname_resolves [OF profs ref h]
    show "((\<forall>p \<in> set profiles. subscript p ''profileId'' \<noteq> Inr pid)
               \<longrightarrow> pname (JList profiles) r = Inr (JStr ''Unknown''))
          \<and> (\<forall>before p after.
                profiles = before @ p # after \<and> subscript p ''profileId'' = Inr pid
                \<and> (\<forall>q \<in> set after. subscript q ''profileId'' \<noteq> Inr pid)
                \<longrightarrow> pname (JList profiles) r = subscript p ''name'')"
      by (rule conjI)
  qed
  have asg: "ref_id ''network'' JNull a = Inr n_id \<and> ref_id ''profile'' JNull a = Inr p_id
            \<and> hashable n_id \<and> hashable p_id \<longrightarrow>
            (\<exists>n_name p_name.
                assignment_names (JList networks) (JList profiles) a = Inr (n_name, p_name)
              \<and> ((\<forall>n \<in> set networks. subscript n ''id'' \<noteq> Inr n_id)
                    \<longrightarrow> n_name = JStr ''Unknown'')
              \<and> ((\<forall>p \<in> set profiles. subscript p ''profileId'' \<noteq> Inr p_id)
                    \<longrightarrow> p_name = JStr ''Unknown'')
              \<and> (\<forall>before n after.
                    networks = before @ n # after \<and> subscript n ''id'' = Inr n_id
                    \<and> (\<forall>q \<in> set after. subscript q ''id'' \<noteq> Inr n_id)
                    \<longrightarrow> subscript n ''name'' = Inr n_name)
              \<and> (\<forall>before p after.
                    profiles = before @ p # after \<and> subscript p ''profileId'' = Inr p_id
                    \<and> (\<forall>q \<in> set after. subscript q ''profileId'' \<noteq> Inr p_id)
                    \<longrightarrow> subscript p ''name'' = Inr p_name))"
  proof (rule impI, elim conjE)
    assume "ref_id ''network'' JNull a = Inr n_id" "ref_id ''profile'' JNull a = Inr p_id"
      "hashable n_id" "hashable p_id"
    then show "\<exists>n_name p_name.
                assignment_names (JList networks) (JList profiles) a = Inr (n_name, p_name)
              \<and> ((\<forall>n \<in> set networks. subscript n ''id'' \<noteq> Inr n_id)
                    \<longrightarrow> n_name = JStr ''Unknown'')
              \<and> ((\<forall>p \<in> set profiles. subscript p ''profileId'' \<noteq> Inr p_id)
                    \<longrightarrow> p_name = JStr ''Unknown'')
              \<and> (\<forall>before n after.
                    networks = before @ n # after \<and> subscript n ''id'' = Inr n_id
                    \<and> (\<forall>q \<in> set after. subscript q ''id'' \<noteq> Inr n_id)
                    \<longrightarrow> subscript n ''name'' = Inr n_name)
              \<and> (\<forall>before p after.
                    profiles = before @ p # after \<and> subscript p ''profileId'' = Inr p_id
                    \<and> (\<forall>q \<in> set after. subscript q ''profileId'' \<noteq> Inr p_id)
                    \<longrightarrow> subscript p ''name'' = Inr p_name)"
      by (rule assignment_names_resolves [OF profs nets])
  qed
  from dns asg show ?thesis by (rule conjI)
qed

theorem relational_lookup_witness:
  "pname (JList [JObj [(''profileId'', JStr ''p1''), (''name'', JStr ''Eng'')]])
         (JObj [(''profile'', JObj [(''id'', JStr ''p1'')])]) = Inr (JStr ''Eng'')
   \<and> pname (JList [JObj [(''profileId'', JStr ''p1''), (''name'', JStr ''Eng'')]])
         (JObj [(''profile'', JObj [(''id'', JStr ''p9'')])]) = Inr (JStr ''Unknown'')"
proof -
  let ?p = "JObj [(''profileId'', JStr ''p1''), (''name'', JStr ''Eng'')]"
  let ?r1 = "JObj [(''profile'', JObj [(''id'', JStr ''p1'')])]"
  let ?r9 = "JObj [(''profile'', JObj [(''id'', JStr ''p9'')])]"
  have wf: "\<forall>p \<in> set [?p]. named_item ''profileId'' p"
    by (simp add: named_item_def subscript_def)
  have nets: "\<forall>n \<in> set []. named_item ''id'' n"
    by simp
  have r1: "ref_id ''profile'' (JStr ''N/A'') ?r1 = Inr (JStr ''p1'') \<and> hashable (JStr ''p1'')"
    by (simp add: ref_id_def dict_get_def)
  have r9: "ref_id ''profile'' (JStr ''N/A'') ?r9 = Inr (JStr ''p9'') \<and> hashable (JStr ''p9'')"
    by (simp add: ref_id_def dict_get_def)
  have m: "[?p] = [] @ ?p # [] \<and> subscript ?p ''profileId'' = Inr (JStr ''p1'')
             \<and> (\<forall>q \<in> set []. subscript q ''profileId'' \<noteq> Inr (JStr ''p1''))"
    by (simp add: subscript_def)
  have u: "\<forall>p \<in> set [?p]. subscript p ''profileId'' \<noteq> Inr (JStr ''p9'')"
    by (simp add: subscript_def)
  note T1 = relational_lookup [OF wf nets, of ?r1 "JStr ''p1''", THEN conjunct1, THEN mp, OF r1]
  note T9 = relational_lookup [OF wf nets, of ?r9 "JStr ''p9''", THEN conjunct1, THEN mp, OF r9]
  from T1 [THEN conjunct2, THEN spec, THEN spec, THEN spec, THEN mp, OF m]
  have a: "pname (JList [?p]) ?r1 = Inr (JStr ''Eng'')"
    by (simp add: subscript_def)
  from T9 [THEN conjunct1, THEN mp, OF u]
  have b: "pname (JList [?p]) ?r9 = Inr (JStr ''Unknown'')" .
  from a b show ?thesis by (rule conjI)
qed

subsection \<open>Feedback after a mutation\<close>

text \<open>
  C10. The success test of the page is asymmetric. After a delete, a falsy result, such as
  the empty mapping, is a success (\<open>not res or "error" not in res\<close>); after a create, a
  falsy result is a failure (\<open>res and "error" not in res\<close>). So the empty mapping, which
  has no field \<open>error\<close>, is reported as deleted by the one and as the error
  \<open>Unknown\<close> by the other.
\<close>

theorem feedback_asymmetry:
  "delete_feedback (JObj []) = Inr SuccessToast
   \<and> create_feedback (JObj []) = Inr (ErrorToast (JStr ''Unknown''))
   \<and> \<not> has_error (JObj [])
   \<and> (\<not> truthy res \<longrightarrow>
        delete_ok res = Inr True \<and> create_ok res = Inr False
      \<and> delete_feedback res = Inr SuccessToast \<and> create_feedback res \<noteq> Inr SuccessToast)"
  by (auto simp add: delete_feedback_def create_feedback_def delete_ok_def create_ok_def
        has_error_def dict_get_def split: sum.splits json.splits)

theorem feedback_asymmetry_witness:
  "\<not> truthy JNull \<and> delete_feedback JNull = Inr SuccessToast
   \<and> create_feedback JNull \<noteq> Inr SuccessToast
   \<and> delete_feedback (JObj []) = Inr SuccessToast
   \<and> create_feedback (JObj []) = Inr (ErrorToast (JStr ''Unknown''))"
  using feedback_asymmetry [of JNull] by simp

end
